theory Spec2Isabelle
  imports Complex_Main "HOL-Library.AList" "HOL-Library.Sublist"
begin

section \<open>Python strings\<close>

text \<open>
  A Python \<open>str\<close> is modelled as a \<open>string\<close>: one \<open>char\<close> per code point, for the
  code points below 256. The string methods the program calls are written out for
  that range, with Python's own tables (which characters count as whitespace, which
  have a lower-case form).
\<close>

definition py_isspace :: "char \<Rightarrow> bool" where
  \<comment> \<open>\<open>str.isspace\<close> on one character: TAB, LF, VT, FF, CR, FS, GS, RS, US, SPACE,
      NEL (0x85) and NBSP (0xA0).\<close>
  "py_isspace c =
     (let n = (of_char c :: nat)
      in (9 \<le> n \<and> n \<le> 13) \<or> (28 \<le> n \<and> n \<le> 32) \<or> n = 133 \<or> n = 160)"

definition strip_where :: "(char \<Rightarrow> bool) \<Rightarrow> string \<Rightarrow> string" where
  \<comment> \<open>remove the leading and the trailing characters that satisfy \<open>p\<close>\<close>
  "strip_where p s = rev (dropWhile p (rev (dropWhile p s)))"

definition py_strip :: "string \<Rightarrow> string" where
  \<comment> \<open>\<open>s.strip()\<close>\<close>
  "py_strip s = strip_where py_isspace s"

definition py_strip_chars :: "string \<Rightarrow> string \<Rightarrow> string" where
  \<comment> \<open>\<open>s.strip(chars)\<close>: the argument is a set of characters, not a prefix\<close>
  "py_strip_chars chars s = strip_where (\<lambda>c. c \<in> set chars) s"

definition lower_char :: "char \<Rightarrow> char" where
  \<comment> \<open>\<open>A\<close>..\<open>Z\<close> and the Latin-1 capitals 0xC0..0xDE (but not the sign 0xD7) move up by 32\<close>
  "lower_char c =
     (let n = (of_char c :: nat)
      in if (65 \<le> n \<and> n \<le> 90) \<or> (192 \<le> n \<and> n \<le> 222 \<and> n \<noteq> 215)
         then char_of (n + 32) else c)"

definition py_lower :: "string \<Rightarrow> string" where
  \<comment> \<open>\<open>s.lower()\<close>\<close>
  "py_lower s = map lower_char s"

definition py_replace :: "char \<Rightarrow> char \<Rightarrow> string \<Rightarrow> string" where
  \<comment> \<open>\<open>s.replace(old, new)\<close> for one-character \<open>old\<close> and \<open>new\<close>, the only form used\<close>
  "py_replace old new s = map (\<lambda>c. if c = old then new else c) s"

fun py_join :: "string \<Rightarrow> string list \<Rightarrow> string" where
  \<comment> \<open>\<open>sep.join(xs)\<close>\<close>
  "py_join sep [] = []"
| "py_join sep [x] = x"
| "py_join sep (x # y # ys) = x @ sep @ py_join sep (y # ys)"

fun py_in :: "string \<Rightarrow> string \<Rightarrow> bool" where
  \<comment> \<open>\<open>sub in s\<close> on strings: \<open>sub\<close> occurs in \<open>s\<close> as a contiguous run\<close>
  "py_in sub [] = (sub = [])"
| "py_in sub (c # cs) = (take (length sub) (c # cs) = sub \<or> py_in sub cs)"

definition py_slice_1_m1 :: "string \<Rightarrow> string" where
  \<comment> \<open>\<open>s[1:-1]\<close>: without the first and the last character; empty when \<open>len(s) \<le> 2\<close>\<close>
  "py_slice_1_m1 s = butlast (tl s)"

definition nl :: string where
  "nl = [CHR 0x0A]"

definition dquote :: string where
  "dquote = [CHR 0x22]"

section \<open>The generation service\<close>

text \<open>
  \<open>client.chat.completions.create(model=..., messages=..., temperature=...)\<close> is a
  call to a remote service. It is modelled as a function of the request and of a
  service state \<open>'s\<close> (the service may answer the same request differently the next
  time), returning the new state and either the exception it raised or the response.
  A response holds the message content of each of its choices; a content may be
  \<open>None\<close>. The model identifier of a request is whatever the caller passes on,
  a value of a type \<open>'m\<close>. Exceptions are the subclasses of Python's \<open>Exception\<close>;
  the interrupts outside that class are not modelled. The \<open>print\<close> calls are not
  modelled either.
\<close>

datatype error =
    ServiceError string
  | IndexError
  | AttributeError
  | FileNotFoundError string
  | ValueError string
  | OtherError string

record 'm request =
  model :: 'm
  messages :: "(string \<times> string) list"
  temperature :: rat

record response =
  choices :: "string option list"

type_synonym ('m, 's) client = "'m request \<Rightarrow> 's \<Rightarrow> (error + response) \<times> 's"

definition first_content :: "response \<Rightarrow> error + string" where
  \<comment> \<open>\<open>response.choices[0].message.content\<close>, followed by a method call on it: an
      empty list of choices raises IndexError, a content of None AttributeError\<close>
  "first_content r =
     (case choices r of
        [] \<Rightarrow> Inl IndexError
      | None # _ \<Rightarrow> Inl AttributeError
      | Some content # _ \<Rightarrow> Inr content)"

section \<open>Field Classifier\<close>

definition field_categories :: "string list" where
  "field_categories =
     [''name'', ''first_name'', ''last_name'', ''phone_number'', ''email'', ''address'',
      ''city'', ''state'', ''zip_code'', ''country'', ''company'', ''job_title'', ''date'',
      ''vehicle_year'', ''vehicle_make'', ''vehicle_model'', ''vin'', ''license_plate'',
      ''currency_amount'', ''boolean'', ''text'']"

definition field_type_prompt :: "string \<Rightarrow> string" where
  "field_type_prompt field_name =
     nl @ ''    You are an expert at categorizing PDF form fields into specific data types.''
     @ nl @ ''    Based on the field name '' @ dquote @ field_name @ dquote
     @ '', what is the most specific data type from the following list?''
     @ nl @ ''    List: '' @ py_join '', '' field_categories
     @ nl @ ''    Respond with only a single category from the list.''
     @ nl @ ''    ''"

definition field_type_request :: "string \<Rightarrow> 'm \<Rightarrow> 'm request" where
  "field_type_request field_name mdl =
     \<lparr> model = mdl,
       messages = [(''system'', ''You are an expert at categorizing PDF form fields.''),
                   (''user'', field_type_prompt field_name)],
       temperature = 0 \<rparr>"

definition normalize_category :: "string \<Rightarrow> string" where
  \<comment> \<open>\<open>content.strip().lower().replace("_", " ")\<close>\<close>
  "normalize_category content =
     py_replace (CHR ''_'') (CHR '' '') (py_lower (py_strip content))"

definition pick_category :: "string \<Rightarrow> string" where
  \<comment> \<open>\<open>category if category.replace(" ", "_") in field_categories else "text"\<close>\<close>
  "pick_category category =
     (if py_replace (CHR '' '') (CHR ''_'') category \<in> set field_categories
      then category else ''text'')"

definition field_type_try ::
    "string \<Rightarrow> ('m, 's) client \<Rightarrow> 'm \<Rightarrow> 's \<Rightarrow> (error + string) \<times> 's" where
  \<comment> \<open>the body of the \<open>try\<close> block\<close>
  "field_type_try field_name client mdl s =
     (case client (field_type_request field_name mdl) s of
        (Inl e, s') \<Rightarrow> (Inl e, s')
      | (Inr resp, s') \<Rightarrow>
          (case first_content resp of
             Inl e \<Rightarrow> (Inl e, s')
           | Inr content \<Rightarrow> (Inr (pick_category (normalize_category content)), s')))"

definition get_field_type_from_ai ::
    "string \<Rightarrow> ('m, 's) client \<Rightarrow> 'm \<Rightarrow> 's \<Rightarrow> (error + string) \<times> 's" where
  \<comment> \<open>\<open>except Exception\<close>: whatever the \<open>try\<close> block raised, the result is \<open>"text"\<close>\<close>
  "get_field_type_from_ai field_name client mdl s =
     (case field_type_try field_name client mdl s of
        (Inl e, s') \<Rightarrow> (Inr ''text'', s')
      | (Inr category, s') \<Rightarrow> (Inr category, s'))"

section \<open>Value Synthesizer\<close>

datatype pyval = PyBool bool | PyStr string

definition squote :: string where
  "squote = [CHR 0x27]"

definition data_prompt :: "string \<Rightarrow> string \<Rightarrow> string" where
  "data_prompt field_name field_type =
     nl @ ''    You are an expert at generating realistic sample data for filling out forms.''
     @ nl @ ''    Based on the field name '' @ dquote @ field_name @ dquote
     @ '' and its determined type '' @ dquote @ field_type @ dquote
     @ '', generate a single, realistic data value.''
     @ nl @ ''    - Your response must be ONLY the data value itself, with no extra text, labels, or quotation marks.''
     @ nl @ ''    - For a '' @ squote @ ''date'' @ squote @ '', use YYYY-MM-DD format.''
     @ nl @ ''    - For a '' @ squote @ ''boolean'' @ squote @ '', respond with either ''
     @ squote @ ''Yes'' @ squote @ '' or '' @ squote @ ''Off'' @ squote @ ''.''
     @ nl @ ''    - For a '' @ squote @ ''currency_amount'' @ squote @ '', provide a number like ''
     @ squote @ ''12345.00'' @ squote @ ''.''
     @ nl @ ''    Generate a value for a field of type: '' @ field_type
     @ nl @ ''    ''"

definition data_request :: "string \<Rightarrow> string \<Rightarrow> 'm \<Rightarrow> 'm request" where
  "data_request field_name field_type mdl =
     \<lparr> model = mdl,
       messages = [(''system'', ''You are a data generation engine.''),
                   (''user'', data_prompt field_name field_type)],
       temperature = 7 / 10 \<rparr>"

definition strip_data :: "string \<Rightarrow> string" where
  \<comment> \<open>\<open>content.strip(' "')\<close>: the characters stripped are the space and the double quote\<close>
  "strip_data content = py_strip_chars ('' '' @ dquote) content"

definition coerce_data :: "string \<Rightarrow> string \<Rightarrow> pyval" where
  \<comment> \<open>the two \<open>return\<close> statements after the strip\<close>
  "coerce_data field_type data_value =
     (if field_type = ''boolean''
      then (if py_in ''yes'' (py_lower data_value) then PyBool True else PyBool False)
      else PyStr data_value)"

definition data_try ::
    "string \<Rightarrow> string \<Rightarrow> ('m, 's) client \<Rightarrow> 'm \<Rightarrow> 's \<Rightarrow> (error + pyval) \<times> 's" where
  \<comment> \<open>the body of the \<open>try\<close> block\<close>
  "data_try field_name field_type client mdl s =
     (case client (data_request field_name field_type mdl) s of
        (Inl e, s') \<Rightarrow> (Inl e, s')
      | (Inr resp, s') \<Rightarrow>
          (case first_content resp of
             Inl e \<Rightarrow> (Inl e, s')
           | Inr content \<Rightarrow> (Inr (coerce_data field_type (strip_data content)), s')))"

definition get_data_from_ai ::
    "string \<Rightarrow> string \<Rightarrow> ('m, 's) client \<Rightarrow> 'm \<Rightarrow> 's \<Rightarrow> (error + pyval) \<times> 's" where
  \<comment> \<open>\<open>except Exception\<close>: whatever the \<open>try\<close> block raised, the result is \<open>""\<close>\<close>
  "get_data_from_ai field_name field_type client mdl s =
     (case data_try field_name field_type client mdl s of
        (Inl e, s') \<Rightarrow> (Inr (PyStr []), s')
      | (Inr v, s') \<Rightarrow> (Inr v, s'))"

section \<open>Form Writer\<close>

text \<open>
  pdfrw holds a name, a string or a number of the PDF as a subclass of \<open>str\<close> whose
  text is the raw token: the name \<open>/Widget\<close> is the text \<open>/Widget\<close>, the string
  \<open>(agree)\<close> is the text \<open>(agree)\<close> with its delimiters. A dictionary is a Python
  \<open>dict\<close>: an association list with distinct keys, in insertion order, where storing
  under a key that is present keeps its place and a new key goes to the end
  (\<open>AList.update\<close>). The entries of an annotation are held as such tokens, every
  annotation of the page lists is an object of its own, and a page is its list of
  annotations (\<open>None\<close> when the page has no \<open>/Annots\<close> entry).
\<close>

type_synonym pdfobj = string

type_synonym pdfdict = "(string \<times> pdfobj) list"

record page =
  annots :: "pdfdict list option"

record document =
  pages :: "page list"
  acroform :: "pdfdict option"

definition PdfName :: "string \<Rightarrow> pdfobj" where
  "PdfName n = ''/'' @ n"

definition PdfObject :: "string \<Rightarrow> pdfobj" where
  "PdfObject tok = tok"

definition dict_get :: "pdfdict \<Rightarrow> string \<Rightarrow> pdfobj option" where
  \<comment> \<open>\<open>d.get(key)\<close>\<close>
  "dict_get d key = map_of d key"

definition dict_update :: "pdfdict \<Rightarrow> pdfdict \<Rightarrow> pdfdict" where
  \<comment> \<open>\<open>d.update(other)\<close>: the entries of \<open>other\<close> are stored in their order\<close>
  "dict_update d other = foldl (\<lambda>acc (k, v). AList.update k v acc) d other"

definition is_named_widget :: "pdfdict \<Rightarrow> bool" where
  \<comment> \<open>\<open>annotation.get('/Subtype') == '/Widget' and annotation.get('/T')\<close>: the second
      operand is true for a \<open>/T\<close> entry that is present and not the empty text\<close>
  "is_named_widget annotation =
     (dict_get annotation ''/Subtype'' = Some ''/Widget''
      \<and> (case dict_get annotation ''/T'' of None \<Rightarrow> False | Some t \<Rightarrow> t \<noteq> []))"

definition widget_field_name :: "pdfdict \<Rightarrow> string" where
  \<comment> \<open>\<open>annotation['/T'][1:-1]\<close>, read only after \<open>is_named_widget\<close>\<close>
  "widget_field_name annotation =
     (case dict_get annotation ''/T'' of None \<Rightarrow> [] | Some t \<Rightarrow> py_slice_1_m1 t)"

definition isinstance_bool :: "pyval \<Rightarrow> bool" where
  \<comment> \<open>\<open>isinstance(v, bool)\<close>\<close>
  "isinstance_bool v = (case v of PyBool b \<Rightarrow> True | PyStr t \<Rightarrow> False)"

definition py_truth :: "pyval \<Rightarrow> bool" where
  \<comment> \<open>the truth value of \<open>v\<close> in \<open>if v:\<close>\<close>
  "py_truth v = (case v of PyBool b \<Rightarrow> b | PyStr t \<Rightarrow> t \<noteq> [])"

definition py_str :: "pyval \<Rightarrow> string" where
  \<comment> \<open>\<open>str(v)\<close>: a string is its own string form\<close>
  "py_str v = (case v of PyBool b \<Rightarrow> (if b then ''True'' else ''False'') | PyStr t \<Rightarrow> t)"

definition set_field_value :: "pyval \<Rightarrow> pdfdict \<Rightarrow> pdfdict" where
  \<comment> \<open>the three \<open>annotation.update\<close> branches\<close>
  "set_field_value field_value annotation =
     (if isinstance_bool field_value
      then (if py_truth field_value
            then dict_update annotation [(''/V'', PdfName ''Yes''), (''/AS'', PdfName ''Yes'')]
            else dict_update annotation [(''/V'', PdfName ''Off''), (''/AS'', PdfName ''Off'')])
      else dict_update annotation [(''/V'', py_str field_value)])"

definition fill_annotation :: "(string \<rightharpoonup> pyval) \<Rightarrow> pdfdict \<Rightarrow> pdfdict" where
  \<comment> \<open>the body of the inner \<open>for\<close> loop\<close>
  "fill_annotation data_to_fill annotation =
     (if is_named_widget annotation
      then (case data_to_fill (widget_field_name annotation) of
              None \<Rightarrow> annotation
            | Some field_value \<Rightarrow> set_field_value field_value annotation)
      else annotation)"

definition fill_page :: "(string \<rightharpoonup> pyval) \<Rightarrow> page \<Rightarrow> page" where
  \<comment> \<open>the body of the outer \<open>for\<close> loop\<close>
  "fill_page data_to_fill pg =
     (case annots pg of
        None \<Rightarrow> pg
      | Some annotations \<Rightarrow> pg\<lparr>annots := Some (map (fill_annotation data_to_fill) annotations)\<rparr>)"

definition mark_need_appearances :: "pdfdict option \<Rightarrow> pdfdict option" where
  \<comment> \<open>\<open>if template_pdf.Root.AcroForm:\<close> is false for a missing and for an empty dictionary\<close>
  "mark_need_appearances form =
     (case form of
        None \<Rightarrow> None
      | Some d \<Rightarrow>
          (if d = [] then Some d
           else Some (dict_update d [(''/NeedAppearances'', PdfObject ''true'')])))"

definition fill_template :: "(string \<rightharpoonup> pyval) \<Rightarrow> document \<Rightarrow> document" where
  \<comment> \<open>\<open>fill_pdf_form\<close> after the template has been read\<close>
  "fill_template data_to_fill template_pdf =
     \<lparr> pages = map (fill_page data_to_fill) (pages template_pdf),
       acroform = mark_need_appearances (acroform template_pdf) \<rparr>"

section \<open>The program\<close>

text \<open>
  The libraries behind \<open>main\<close> are parameters of the model: what is on disk is a
  state \<open>'w\<close>, read by \<open>os.path.exists\<close>, by \<open>yaml.safe_load\<close> on the opened file, by
  PyPDF2's \<open>PdfReader(path).get_fields()\<close> (the field names in the dictionary's
  order, or \<open>None\<close>) and by pdfrw's \<open>PdfReader(path)\<close>, and changed only by pdfrw's
  \<open>PdfWriter().write\<close>. Each of the four that can raise returns the exception
  instead, and so does the constructor \<open>openai.OpenAI(api_key=..., base_url=...)\<close>,
  which builds the client or raises (on an endpoint that is no URL, for one).

  What \<open>yaml.safe_load\<close> returns is any value of YAML: \<open>None\<close> for an empty file, a
  scalar, a list or a dictionary, nested at will. A value of another kind (a float,
  a date, binary data) is \<open>YOther\<close> with the truth value Python gives it; none of
  them has a method \<open>get\<close>. The arguments \<open>args\<close> are what \<open>parse_args\<close> returned.
\<close>

datatype yaml =
    YNone
  | YBool bool
  | YInt int
  | YStr string
  | YList "yaml list"
  | YDict "(yaml \<times> yaml) list"
  | YOther bool

definition yaml_truth :: "yaml \<Rightarrow> bool" where
  \<comment> \<open>the truth value of \<open>v\<close> in \<open>not v\<close> and \<open>v or None\<close>\<close>
  "yaml_truth v =
     (case v of
        YNone \<Rightarrow> False
      | YBool b \<Rightarrow> b
      | YInt i \<Rightarrow> i \<noteq> 0
      | YStr t \<Rightarrow> t \<noteq> []
      | YList xs \<Rightarrow> xs \<noteq> []
      | YDict kvs \<Rightarrow> kvs \<noteq> []
      | YOther b \<Rightarrow> b)"

definition yaml_get :: "yaml \<Rightarrow> string \<Rightarrow> yaml \<Rightarrow> error + yaml" where
  \<comment> \<open>\<open>v.get(key, default)\<close>, and \<open>v.get(key)\<close> with the default \<open>YNone\<close>: only a
      dictionary has the method, on any other value the attribute lookup raises
      AttributeError\<close>
  "yaml_get v key dflt =
     (case v of
        YDict kvs \<Rightarrow> (case map_of kvs (YStr key) of None \<Rightarrow> Inr dflt | Some x \<Rightarrow> Inr x)
      | _ \<Rightarrow> Inl AttributeError)"

record 'w library =
  path_exists :: "string \<Rightarrow> 'w \<Rightarrow> bool"
  yaml_safe_load :: "string \<Rightarrow> 'w \<Rightarrow> error + yaml"
  get_fields :: "string \<Rightarrow> 'w \<Rightarrow> error + string list option"
  pdf_reader :: "string \<Rightarrow> 'w \<Rightarrow> error + document"
  pdf_write :: "string \<Rightarrow> document \<Rightarrow> 'w \<Rightarrow> error + 'w"

record args =
  input_file :: string
  output_prefix :: string
  output_number :: int
  config :: string

datatype outcome = Returned | Raised error

definition load_config :: "'w library \<Rightarrow> string \<Rightarrow> 'w \<Rightarrow> error + yaml" where
  "load_config lib config_path w =
     (if \<not> path_exists lib config_path w
      then Inl (FileNotFoundError (''Configuration file not found at: '' @ config_path))
      else yaml_safe_load lib config_path w)"

definition fill_pdf_form ::
    "'w library \<Rightarrow> string \<Rightarrow> (string \<rightharpoonup> pyval) \<Rightarrow> 'w \<Rightarrow> error + document" where
  "fill_pdf_form lib input_pdf data_to_fill w =
     (case pdf_reader lib input_pdf w of
        Inl e \<Rightarrow> Inl e
      | Inr template_pdf \<Rightarrow> Inr (fill_template data_to_fill template_pdf))"

function str_nat :: "nat \<Rightarrow> string" where
  \<comment> \<open>\<open>str(n)\<close> for \<open>n \<ge> 0\<close>: the decimal digits\<close>
  "str_nat n =
     (if n < 10 then [char_of (48 + n)]
      else str_nat (n div 10) @ [char_of (48 + n mod 10)])"
  by pat_completeness auto
termination
  by (relation "measure id") auto

definition str_int :: "int \<Rightarrow> string" where
  \<comment> \<open>\<open>str(i)\<close>\<close>
  "str_int i = (if i < 0 then ''-'' @ str_nat (nat (- i)) else str_nat (nat i))"

fun collect_data ::
    "string list \<Rightarrow> ('m, 's) client \<Rightarrow> 'm \<Rightarrow> (string \<rightharpoonup> pyval) \<Rightarrow> 's
     \<Rightarrow> (error + (string \<rightharpoonup> pyval)) \<times> 's" where
  \<comment> \<open>\<open>for field_name in fields.keys():\<close> with the dictionary filled so far\<close>
  "collect_data [] client mdl data_to_fill s = (Inr data_to_fill, s)"
| "collect_data (field_name # rest) client mdl data_to_fill s =
     (case get_field_type_from_ai field_name client mdl s of
        (Inl e, s1) \<Rightarrow> (Inl e, s1)
      | (Inr field_type, s1) \<Rightarrow>
          (case get_data_from_ai field_name field_type client mdl s1 of
             (Inl e, s2) \<Rightarrow> (Inl e, s2)
           | (Inr data_value, s2) \<Rightarrow>
               collect_data rest client mdl (data_to_fill(field_name \<mapsto> data_value)) s2))"

fun generate_documents ::
    "'w library \<Rightarrow> args \<Rightarrow> string list \<Rightarrow> ('m, 's) client \<Rightarrow> 'm \<Rightarrow> int list
     \<Rightarrow> string list \<Rightarrow> 'w \<Rightarrow> 's \<Rightarrow> outcome \<times> string list \<times> 'w \<times> 's" where
  \<comment> \<open>\<open>for i in range(1, args.output_number + 1):\<close> over the indices still to do;
      \<open>written\<close> lists the output files written so far\<close>
  "generate_documents lib a field_names client mdl [] written w s = (Returned, written, w, s)"
| "generate_documents lib a field_names client mdl (i # rest) written w s =
     (case collect_data field_names client mdl Map.empty s of
        (Inl e, s') \<Rightarrow> (Raised e, written, w, s')
      | (Inr data_to_fill, s') \<Rightarrow>
          (case fill_pdf_form lib (input_file a) data_to_fill w of
             Inl e \<Rightarrow> (Raised e, written, w, s')
           | Inr filled_template \<Rightarrow>
               (let output_filename = output_prefix a @ ''-'' @ str_int i @ ''.pdf''
                in case pdf_write lib output_filename filled_template w of
                     Inl e \<Rightarrow> (Raised e, written, w, s')
                   | Inr w' \<Rightarrow>
                       generate_documents lib a field_names client mdl rest
                         (written @ [output_filename]) w' s')))"

definition client_setup ::
    "'w library \<Rightarrow> (yaml \<Rightarrow> yaml \<Rightarrow> error + (yaml, 's) client) \<Rightarrow> args \<Rightarrow> 'w
     \<Rightarrow> error + (yaml, 's) client \<times> yaml" where
  \<comment> \<open>the body of the \<open>try\<close> block of \<open>main\<close>: the client and the model to use, or the
      exception raised on the way; \<open>OpenAI api_key base_url\<close> is the constructor call\<close>
  "client_setup lib OpenAI a w =
     (case load_config lib (config a) w of
        Inl e \<Rightarrow> Inl e
      | Inr cfg \<Rightarrow>
          (case yaml_get cfg ''openai'' (YDict []) of
             Inl e \<Rightarrow> Inl e
           | Inr openai_config \<Rightarrow>
               (case yaml_get openai_config ''api_key'' YNone of
                  Inl e \<Rightarrow> Inl e
                | Inr api_key \<Rightarrow>
                    if \<not> yaml_truth api_key
                    then Inl (ValueError ''OpenAI API key is missing from config.yaml'')
                    else
                      (case yaml_get openai_config ''endpoint_url'' YNone of
                         Inl e \<Rightarrow> Inl e
                       | Inr endpoint_url \<Rightarrow>
                           (case OpenAI api_key
                                   (if yaml_truth endpoint_url then endpoint_url else YNone) of
                              Inl e \<Rightarrow> Inl e
                            | Inr client \<Rightarrow>
                                (case yaml_get openai_config ''model'' (YStr ''gpt-3.5-turbo'') of
                                   Inl e \<Rightarrow> Inl e
                                 | Inr model_to_use \<Rightarrow> Inr (client, model_to_use)))))))"

definition main ::
    "'w library \<Rightarrow> (yaml \<Rightarrow> yaml \<Rightarrow> error + (yaml, 's) client) \<Rightarrow> args \<Rightarrow> 'w \<Rightarrow> 's
     \<Rightarrow> outcome \<times> string list \<times> 'w \<times> 's" where
  \<comment> \<open>the result: how the run ended, the output files it wrote, the disk and the
      service as it left them; \<open>except (FileNotFoundError, ValueError)\<close> turns these two
      exceptions of the \<open>try\<close> block into a return, any other one leaves \<open>main\<close>\<close>
  "main lib OpenAI a w s =
     (case client_setup lib OpenAI a w of
        Inl (FileNotFoundError m) \<Rightarrow> (Returned, [], w, s)
      | Inl (ValueError m) \<Rightarrow> (Returned, [], w, s)
      | Inl e \<Rightarrow> (Raised e, [], w, s)
      | Inr (client, model_to_use) \<Rightarrow>
          if \<not> path_exists lib (input_file a) w then (Returned, [], w, s)
          else
            (case get_fields lib (input_file a) w of
               Inl e \<Rightarrow> (Raised e, [], w, s)
             | Inr None \<Rightarrow> (Returned, [], w, s)
             | Inr (Some field_names) \<Rightarrow>
                 if field_names = [] then (Returned, [], w, s)
                 else generate_documents lib a field_names client model_to_use
                        [1 .. output_number a] [] w s))"

section \<open>Sample services\<close>

definition answering :: "string \<Rightarrow> ('m, 's) client" where
  \<comment> \<open>a service that answers every request with one choice, the given text\<close>
  "answering content req s = (Inr \<lparr> choices = [Some content] \<rparr>, s)"

definition failing :: "error \<Rightarrow> ('m, 's) client" where
  \<comment> \<open>a service that raises the given exception on every request\<close>
  "failing e req s = (Inl e, s)"

definition responding :: "string option list \<Rightarrow> ('m, 's) client" where
  \<comment> \<open>a service that answers every request with the given choices\<close>
  "responding cs req s = (Inr \<lparr> choices = cs \<rparr>, s)"

section \<open>Notions used to state the properties\<close>

definition matches_category :: "string \<Rightarrow> string \<Rightarrow> bool" where
  \<comment> \<open>the response names the label: trimmed and in lower case it is the label, an
      underscore and a space read as the same separator\<close>
  "matches_category content label =
     (py_replace (CHR ''_'') (CHR '' '') (py_lower (py_strip content))
        = py_replace (CHR ''_'') (CHR '' '') label)"

fun call_repeatedly :: "nat \<Rightarrow> ('s \<Rightarrow> 'a \<times> 's) \<Rightarrow> 's \<Rightarrow> 'a list \<times> 's" where
  \<comment> \<open>\<open>n\<close> calls one after the other, each on the service as the call before left it;
      the results in order\<close>
  "call_repeatedly 0 f s = ([], s)"
| "call_repeatedly (Suc n) f s =
     (case f s of (r, s') \<Rightarrow> (case call_repeatedly n f s' of (rs, s'') \<Rightarrow> (r # rs, s'')))"

definition contains_yes_ignoring_case :: "string \<Rightarrow> bool" where
  \<comment> \<open>at some position stand a \<open>y\<close>, an \<open>e\<close> and an \<open>s\<close> in a row, each in either case\<close>
  "contains_yes_ignoring_case t =
     (\<exists>i \<in> {0..<length t}.
        i + 2 < length t
        \<and> t ! i \<in> {CHR ''y'', CHR ''Y''}
        \<and> t ! (i + 1) \<in> {CHR ''e'', CHR ''E''}
        \<and> t ! (i + 2) \<in> {CHR ''s'', CHR ''S''})"

section \<open>A sample form\<close>

definition agree_widget :: pdfdict where
  \<comment> \<open>a check box named \<open>agree\<close>, not ticked\<close>
  "agree_widget =
     [(''/Subtype'', ''/Widget''), (''/FT'', ''/Btn''), (''/T'', ''(agree)''),
      (''/V'', ''/Off''), (''/AS'', ''/Off'')]"

definition full_name_widget :: pdfdict where
  \<comment> \<open>an empty text field named \<open>full_name\<close>\<close>
  "full_name_widget = [(''/Subtype'', ''/Widget''), (''/FT'', ''/Tx''), (''/T'', ''(full_name)'')]"

definition date_signed_widget :: pdfdict where
  \<comment> \<open>a text field named \<open>date_signed\<close> that holds a value\<close>
  "date_signed_widget =
     [(''/Subtype'', ''/Widget''), (''/FT'', ''/Tx''), (''/T'', ''(date_signed)''),
      (''/V'', ''(2020-01-31)'')]"

definition link_annotation :: pdfdict where
  "link_annotation = [(''/Subtype'', ''/Link''), (''/T'', ''(agree)'')]"

definition agreement_form :: document where
  \<comment> \<open>one page with the four annotations, one page without annotations\<close>
  "agreement_form =
     \<lparr> pages = [\<lparr> annots = Some [agree_widget, full_name_widget, date_signed_widget,
                                    link_annotation] \<rparr>,
                \<lparr> annots = None \<rparr>],
       acroform = Some [(''/DA'', ''(/Helv 0 Tf 0 g)'')] \<rparr>"

definition sample_values :: "string \<rightharpoonup> pyval" where
  "sample_values = [''agree'' \<mapsto> PyBool True, ''full_name'' \<mapsto> PyStr ''Jane Doe'']"

definition sample_config :: yaml where
  "sample_config = YDict [(YStr ''openai'', YDict [(YStr ''api_key'', YStr ''sk-sample'')])]"

definition bad_endpoint_config :: yaml where
  \<comment> \<open>an API key and an endpoint whose port is not a number\<close>
  "bad_endpoint_config =
     YDict [(YStr ''openai'',
             YDict [(YStr ''api_key'', YStr ''sk-sample''),
                    (YStr ''endpoint_url'', YStr ''http://localhost:port/v1'')])]"

definition sample_OpenAI :: "string \<Rightarrow> yaml \<Rightarrow> yaml \<Rightarrow> error + (yaml, 's) client" where
  \<comment> \<open>a constructor that refuses the endpoint of \<open>bad_endpoint_config\<close> and otherwise
      builds a client that answers every request with the given text\<close>
  "sample_OpenAI content api_key base_url =
     (if base_url = YStr ''http://localhost:port/v1'' then Inl (OtherError ''InvalidURL'')
      else Inr (answering content))"

definition sample_library ::
    "yaml \<Rightarrow> string list option \<Rightarrow> document \<Rightarrow> (string \<times> document) list library" where
  \<comment> \<open>a disk that is the list of the files written so far; every path exists, the
      configuration file holds the given value, the form has the given field names and
      content\<close>
  "sample_library cfg field_names template_pdf =
     \<lparr> path_exists = (\<lambda>path w. True),
       yaml_safe_load = (\<lambda>path w. Inr cfg),
       get_fields = (\<lambda>path w. Inr field_names),
       pdf_reader = (\<lambda>path w. Inr template_pdf),
       pdf_write = (\<lambda>path doc w. Inr (w @ [(path, doc)])) \<rparr>"

definition sample_args :: args where
  "sample_args =
     \<lparr> input_file = ''form.pdf'', output_prefix = ''filled_document'', output_number = 2,
       config = ''config.yaml'' \<rparr>"

section \<open>Properties of the string operations\<close>

lemma py_replace_absent: "old \<notin> set t \<Longrightarrow> py_replace old new t = t"
  by (induction t) (auto simp: py_replace_def)

lemma py_replace_back:
  "old \<notin> set t \<Longrightarrow> py_replace old new (py_replace new old t) = t"
  by (induction t) (auto simp: py_replace_def)

lemma py_replace_removes: "old \<noteq> new \<Longrightarrow> old \<notin> set (py_replace old new t)"
  by (auto simp: py_replace_def)

section \<open>Properties of the Field Classifier\<close>

lemma text_in_categories: "''text'' \<in> set field_categories"
  by (simp add: field_categories_def)

lemma categories_count: "length field_categories = 21 \<and> distinct field_categories"
  by (simp add: field_categories_def)

lemma categories_no_space: "c \<in> set field_categories \<Longrightarrow> CHR '' '' \<notin> set c"
  by (auto simp: field_categories_def)

lemma pick_category_key_form:
  "py_replace (CHR '' '') (CHR ''_'') (pick_category c) \<in> set field_categories"
  by (simp add: pick_category_def py_replace_def text_in_categories)

lemma pick_category_no_space:
  "CHR '' '' \<notin> set (pick_category c) \<Longrightarrow> pick_category c \<in> set field_categories"
  using pick_category_key_form [of c] by (simp add: py_replace_absent)

lemma classify_cases:
  "(\<exists>s'. get_field_type_from_ai field_name client mdl s = (Inr ''text'', s'))
   \<or> (\<exists>content s'. get_field_type_from_ai field_name client mdl s
          = (Inr (pick_category (normalize_category content)), s'))"
  by (auto simp: get_field_type_from_ai_def field_type_try_def split: prod.splits sum.splits)

text \<open>
  C1, as the code has it. Whatever the service does (an exception, a response without
  choices or without content, any text), \<open>get_field_type_from_ai\<close> returns a string
  whose key form, its spaces written as underscores, is a member of the fixed
  vocabulary; a returned string without a space is itself a member. The vocabulary
  has 21 distinct labels.
\<close>

theorem classify_key_form_in_vocabulary:
  "\<exists>v. fst (get_field_type_from_ai field_name client mdl s) = Inr v
     \<and> py_replace (CHR '' '') (CHR ''_'') v \<in> set field_categories
     \<and> (CHR '' '' \<notin> set v \<longrightarrow> v \<in> set field_categories)
     \<and> length field_categories = 21 \<and> distinct field_categories"
proof -
  consider (fallback) s' where
      "get_field_type_from_ai field_name client mdl s = (Inr ''text'', s')"
    | (picked) content s' where
      "get_field_type_from_ai field_name client mdl s
         = (Inr (pick_category (normalize_category content)), s')"
    using classify_cases [of field_name client mdl s] by blast
  then show ?thesis
  proof cases
    case fallback
    then show ?thesis
      by (simp add: categories_count text_in_categories py_replace_def)
  next
    case picked
    then show ?thesis
      by (simp add: categories_count pick_category_key_form pick_category_no_space)
  qed
qed

theorem classify_key_form_in_vocabulary_witness:
  "fst (get_field_type_from_ai ''is_approved'' (answering '' Boolean '') ''gpt-3.5-turbo'' ())
     = Inr ''boolean''
   \<and> ''boolean'' \<in> set field_categories"
proof -
  have "fst (get_field_type_from_ai ''is_approved'' (answering '' Boolean '') ''gpt-3.5-turbo'' ())
     = Inr ''boolean''"
    by code_simp
  then show ?thesis
    using classify_key_form_in_vocabulary
          [of "''is_approved''" "answering '' Boolean ''" "''gpt-3.5-turbo''" "()"]
    by auto
qed

text \<open>
  The claim as stated fails: when the service answers \<open>first_name\<close>, a label of the
  vocabulary, the value returned is \<open>first name\<close>, which is not one.
\<close>

theorem classify_first_name_counterexample:
  "fst (get_field_type_from_ai ''applicant'' (answering ''first_name'') ''gpt-3.5-turbo'' ())
     = Inr ''first name''
   \<and> ''first name'' \<notin> set field_categories"
proof -
  have "fst (get_field_type_from_ai ''applicant'' (answering ''first_name'') ''gpt-3.5-turbo'' ())
     = Inr ''first name''"
    by code_simp
  then show ?thesis
    by (simp add: field_categories_def)
qed

lemma matches_iff_key_form:
  "py_replace (CHR '' '') (CHR ''_'') (normalize_category content) \<in> set field_categories
   \<longleftrightarrow> (\<exists>label \<in> set field_categories. matches_category content label)"
proof
  let ?n = "normalize_category content"
  assume key: "py_replace (CHR '' '') (CHR ''_'') ?n \<in> set field_categories"
  have "CHR ''_'' \<notin> set ?n"
    by (simp add: normalize_category_def py_replace_removes)
  then have "py_replace (CHR ''_'') (CHR '' '') (py_replace (CHR '' '') (CHR ''_'') ?n) = ?n"
    by (rule py_replace_back)
  then have "matches_category content (py_replace (CHR '' '') (CHR ''_'') ?n)"
    by (simp add: matches_category_def normalize_category_def)
  with key show "\<exists>label \<in> set field_categories. matches_category content label"
    by blast
next
  assume "\<exists>label \<in> set field_categories. matches_category content label"
  then obtain label where mem: "label \<in> set field_categories"
      and m: "matches_category content label"
    by blast
  from m have "normalize_category content = py_replace (CHR ''_'') (CHR '' '') label"
    by (simp add: matches_category_def normalize_category_def)
  moreover have "py_replace (CHR '' '') (CHR ''_'') (py_replace (CHR ''_'') (CHR '' '') label) = label"
    using categories_no_space [OF mem] by (rule py_replace_back)
  ultimately show
    "py_replace (CHR '' '') (CHR ''_'') (normalize_category content) \<in> set field_categories"
    using mem by simp
qed

lemma classify_result:
  "fst (get_field_type_from_ai field_name client mdl s) =
     (case fst (client (field_type_request field_name mdl) s) of
        Inl e \<Rightarrow> Inr ''text''
      | Inr resp \<Rightarrow>
          (case first_content resp of
             Inl e \<Rightarrow> Inr ''text''
           | Inr content \<Rightarrow> Inr (pick_category (normalize_category content))))"
  by (simp add: get_field_type_from_ai_def field_type_try_def split: prod.splits sum.splits)

text \<open>
  C5. \<open>get_field_type_from_ai\<close> never raises: its result is always a returned value.
  When the service call raises, when the response has no first choice or its content
  is \<open>None\<close>, and when the content names no label of the vocabulary, the value is
  \<open>text\<close>.
\<close>

theorem classify_never_raises:
  "(\<exists>v. fst (get_field_type_from_ai field_name client mdl s) = Inr v)
   \<and> (\<forall>e. fst (client (field_type_request field_name mdl) s) = Inl e
         \<longrightarrow> fst (get_field_type_from_ai field_name client mdl s) = Inr ''text'')
   \<and> (\<forall>resp e. fst (client (field_type_request field_name mdl) s) = Inr resp
         \<and> first_content resp = Inl e
         \<longrightarrow> fst (get_field_type_from_ai field_name client mdl s) = Inr ''text'')
   \<and> (\<forall>resp content. fst (client (field_type_request field_name mdl) s) = Inr resp
         \<and> first_content resp = Inr content
         \<and> (\<forall>label \<in> set field_categories. \<not> matches_category content label)
         \<longrightarrow> fst (get_field_type_from_ai field_name client mdl s) = Inr ''text'')"
proof -
  have unmatched: "pick_category (normalize_category content) = ''text''"
    if "\<forall>label \<in> set field_categories. \<not> matches_category content label" for content
    using that matches_iff_key_form [of content] by (simp add: pick_category_def)
  show ?thesis
    by (auto simp: classify_result unmatched split: sum.splits)
qed

theorem classify_never_raises_witness:
  "fst (get_field_type_from_ai ''full_name'' (failing (ServiceError ''connection refused''))
          ''gpt-3.5-turbo'' ()) = Inr ''text''
   \<and> fst (get_field_type_from_ai ''full_name'' (responding []) ''gpt-3.5-turbo'' ())
       = Inr ''text''
   \<and> fst (get_field_type_from_ai ''full_name'' (responding [None]) ''gpt-3.5-turbo'' ())
       = Inr ''text''
   \<and> fst (get_field_type_from_ai ''full_name'' (answering ''A person'') ''gpt-3.5-turbo'' ())
       = Inr ''text''"
proof -
  have garbage: "\<forall>label \<in> set field_categories. \<not> matches_category ''A person'' label"
    unfolding field_categories_def by code_simp
  show ?thesis
    using garbage
      classify_never_raises [of "''full_name''" "failing (ServiceError ''connection refused'')"
        "''gpt-3.5-turbo''" "()"]
      classify_never_raises [of "''full_name''" "responding []" "''gpt-3.5-turbo''" "()"]
      classify_never_raises [of "''full_name''" "responding [None]" "''gpt-3.5-turbo''" "()"]
      classify_never_raises [of "''full_name''" "answering ''A person''" "''gpt-3.5-turbo''" "()"]
    by (simp add: failing_def responding_def answering_def first_content_def)
qed

section \<open>Properties of the Value Synthesizer and of the fallbacks\<close>

lemma synthesize_result:
  "fst (get_data_from_ai field_name field_type client mdl s) =
     (case fst (client (data_request field_name field_type mdl) s) of
        Inl e \<Rightarrow> Inr (PyStr [])
      | Inr resp \<Rightarrow>
          (case first_content resp of
             Inl e \<Rightarrow> Inr (PyStr [])
           | Inr content \<Rightarrow> Inr (coerce_data field_type (strip_data content))))"
  by (simp add: get_data_from_ai_def data_try_def split: prod.splits sum.splits)

lemma call_repeatedly_constant:
  "(\<And>s. fst (f s) = r) \<Longrightarrow> fst (call_repeatedly n f s) = replicate n r"
proof (induction n arbitrary: s)
  case 0
  show ?case by simp
next
  case (Suc n)
  obtain r' s' where step: "f s = (r', s')"
    by (cases "f s")
  with Suc.prems [of s] have "r' = r" by simp
  moreover obtain rs s'' where "call_repeatedly n f s' = (rs, s'')"
    by (cases "call_repeatedly n f s'")
  moreover from this Suc.IH [of s'] Suc.prems have "rs = replicate n r"
    by simp
  ultimately show ?case
    using step by simp
qed

text \<open>
  C6. If the service raises on every request, in whatever state it is, then any
  number of calls of \<open>get_field_type_from_ai\<close> for a field, made one after the other,
  all return \<open>text\<close>, and any number of calls of \<open>get_data_from_ai\<close> all return the
  empty string, whatever the category (the witness takes \<open>boolean\<close>).
\<close>

theorem fallback_idempotent:
  assumes always_fails: "\<forall>req s. isl (fst (client req s))"
  shows "fst (call_repeatedly n (get_field_type_from_ai field_name client mdl) s)
           = replicate n (Inr ''text'')
         \<and> fst (call_repeatedly n (get_data_from_ai field_name field_type client mdl) s)
           = replicate n (Inr (PyStr ''''))"
proof -
  have classify: "fst (get_field_type_from_ai field_name client mdl t) = Inr ''text''" for t
    using always_fails [rule_format, of "field_type_request field_name mdl" t]
    by (auto simp: classify_result isl_def split: sum.splits)
  have synthesize:
    "fst (get_data_from_ai field_name field_type client mdl t) = Inr (PyStr '''')" for t
    using always_fails [rule_format, of "data_request field_name field_type mdl" t]
    by (auto simp: synthesize_result isl_def split: sum.splits)
  show ?thesis
    using call_repeatedly_constant [of "get_field_type_from_ai field_name client mdl", OF classify]
      call_repeatedly_constant [of "get_data_from_ai field_name field_type client mdl",
        OF synthesize]
    by simp
qed

theorem fallback_idempotent_witness:
  "fst (call_repeatedly 3
          (get_field_type_from_ai ''is_approved'' (failing (ServiceError ''timeout'')) ''gpt-3.5-turbo'')
          ())
     = [Inr ''text'', Inr ''text'', Inr ''text'']
   \<and> fst (call_repeatedly 3
          (get_data_from_ai ''is_approved'' ''boolean'' (failing (ServiceError ''timeout''))
             ''gpt-3.5-turbo'')
          ())
     = [Inr (PyStr ''''), Inr (PyStr ''''), Inr (PyStr '''')]"
proof -
  have fails: "\<forall>req s. isl (fst (failing (ServiceError ''timeout'') req (s::unit)))"
    by (simp add: failing_def)
  show ?thesis
    using fallback_idempotent [OF fails, of 3 "''is_approved''" "''gpt-3.5-turbo''" "()" "''boolean''"]
    by (simp add: numeral_3_eq_3)
qed

text \<open>
  C2, as the code has it. When the service call succeeds (a response whose first
  choice has a content), \<open>get_data_from_ai\<close> returns a boolean exactly when the
  category is \<open>boolean\<close>, and a string otherwise. When the call fails (the service
  raises, or the response has no first choice or no content), it returns the empty
  string for every category.
\<close>

theorem synthesize_value_type:
  "(\<forall>resp content.
       fst (client (data_request field_name field_type mdl) s) = Inr resp
       \<and> first_content resp = Inr content
       \<longrightarrow> (\<exists>v. fst (get_data_from_ai field_name field_type client mdl s) = Inr v
                \<and> isinstance_bool v = (field_type = ''boolean'')))
   \<and> (\<forall>e. fst (client (data_request field_name field_type mdl) s) = Inl e
         \<longrightarrow> fst (get_data_from_ai field_name field_type client mdl s) = Inr (PyStr ''''))
   \<and> (\<forall>resp e. fst (client (data_request field_name field_type mdl) s) = Inr resp
         \<and> first_content resp = Inl e
         \<longrightarrow> fst (get_data_from_ai field_name field_type client mdl s) = Inr (PyStr ''''))"
proof (intro conjI allI impI)
  fix resp content
  assume "fst (client (data_request field_name field_type mdl) s) = Inr resp
      \<and> first_content resp = Inr content"
  then have "fst (get_data_from_ai field_name field_type client mdl s)
      = Inr (coerce_data field_type (strip_data content))"
    by (simp add: synthesize_result)
  moreover have "isinstance_bool (coerce_data field_type (strip_data content))
      = (field_type = ''boolean'')"
    by (simp add: coerce_data_def isinstance_bool_def)
  ultimately show "\<exists>v. fst (get_data_from_ai field_name field_type client mdl s) = Inr v
      \<and> isinstance_bool v = (field_type = ''boolean'')"
    by simp
next
  fix e
  assume "fst (client (data_request field_name field_type mdl) s) = Inl e"
  then show "fst (get_data_from_ai field_name field_type client mdl s) = Inr (PyStr '''')"
    by (simp add: synthesize_result)
next
  fix resp e
  assume "fst (client (data_request field_name field_type mdl) s) = Inr resp
      \<and> first_content resp = Inl e"
  then show "fst (get_data_from_ai field_name field_type client mdl s) = Inr (PyStr '''')"
    by (simp add: synthesize_result)
qed

theorem synthesize_value_type_witness:
  "fst (get_data_from_ai ''is_approved'' ''boolean'' (answering ''Yes'') ''gpt-3.5-turbo'' ())
     = Inr (PyBool True)
   \<and> fst (get_data_from_ai ''city'' ''city'' (answering ''Oslo'') ''gpt-3.5-turbo'' ())
     = Inr (PyStr ''Oslo'')
   \<and> fst (get_data_from_ai ''is_approved'' ''boolean'' (failing (ServiceError ''timeout''))
            ''gpt-3.5-turbo'' ())
     = Inr (PyStr '''')
   \<and> fst (get_data_from_ai ''is_approved'' ''boolean'' (responding []) ''gpt-3.5-turbo'' ())
     = Inr (PyStr '''')"
proof -
  have yes: "fst (get_data_from_ai ''is_approved'' ''boolean'' (answering ''Yes'') ''gpt-3.5-turbo'' ())
     = Inr (PyBool True)"
    by code_simp
  have oslo: "fst (get_data_from_ai ''city'' ''city'' (answering ''Oslo'') ''gpt-3.5-turbo'' ())
     = Inr (PyStr ''Oslo'')"
    by code_simp
  show ?thesis
    using yes oslo
      synthesize_value_type [of "answering ''Yes''" "''is_approved''" "''boolean''"
        "''gpt-3.5-turbo''" "()"]
      synthesize_value_type [of "answering ''Oslo''" "''city''" "''city''"
        "''gpt-3.5-turbo''" "()"]
      synthesize_value_type [of "failing (ServiceError ''timeout'')" "''is_approved''"
        "''boolean''" "''gpt-3.5-turbo''" "()"]
      synthesize_value_type [of "responding []" "''is_approved''" "''boolean''"
        "''gpt-3.5-turbo''" "()"]
    by (simp add: failing_def responding_def first_content_def)
qed

text \<open>
  The claim as stated fails for the category \<open>boolean\<close> when the service call
  fails: the value is the empty string, not a boolean.
\<close>

theorem synthesize_boolean_failure_counterexample:
  "fst (get_data_from_ai ''is_approved'' ''boolean'' (failing (ServiceError ''timeout''))
          ''gpt-3.5-turbo'' ())
     = Inr (PyStr '''')
   \<and> \<not> isinstance_bool (PyStr '''')"
  by (simp add: get_data_from_ai_def data_try_def failing_def isinstance_bool_def)

lemma py_in_iff:
  "py_in sub t \<longleftrightarrow> (\<exists>i. i + length sub \<le> length t \<and> take (length sub) (drop i t) = sub)"
proof (induction t)
  case Nil
  show ?case by auto
next
  case (Cons c cs)
  have "(\<exists>i. i + length sub \<le> length (c # cs) \<and> take (length sub) (drop i (c # cs)) = sub)
        \<longleftrightarrow> (take (length sub) (c # cs) = sub
             \<or> (\<exists>j. j + length sub \<le> length cs \<and> take (length sub) (drop j cs) = sub))"
    (is "?L \<longleftrightarrow> ?A \<or> ?B")
  proof
    assume ?L
    then obtain i where i: "i + length sub \<le> length (c # cs)"
        "take (length sub) (drop i (c # cs)) = sub"
      by blast
    show "?A \<or> ?B"
    proof (cases i)
      case 0
      with i show ?thesis by simp
    next
      case (Suc j)
      with i have "j + length sub \<le> length cs \<and> take (length sub) (drop j cs) = sub"
        by simp
      then show ?thesis by blast
    qed
  next
    assume "?A \<or> ?B"
    then show ?L
    proof
      assume a: ?A
      then have "length (take (length sub) (c # cs)) = length sub"
        by simp
      then have "length sub \<le> length (c # cs)"
        by (simp del: length_take add: length_take min_def split: if_splits)
      with a have "0 + length sub \<le> length (c # cs)
          \<and> take (length sub) (drop 0 (c # cs)) = sub"
        by simp
      then show ?L by blast
    next
      assume ?B
      then obtain j where "j + length sub \<le> length cs" "take (length sub) (drop j cs) = sub"
        by blast
      then have "Suc j + length sub \<le> length (c # cs)
          \<and> take (length sub) (drop (Suc j) (c # cs)) = sub"
        by simp
      then show ?L by blast
    qed
  qed
  with Cons.IH show ?case by simp
qed


lemma lower_char_eq_iff:
  "lower_char c = l \<longleftrightarrow>
     (if (65 \<le> (of_char c :: nat) \<and> (of_char c :: nat) \<le> 90)
         \<or> (192 \<le> (of_char c :: nat) \<and> (of_char c :: nat) \<le> 222 \<and> (of_char c :: nat) \<noteq> 215)
      then (of_char c :: nat) + 32 = of_char l else c = l)"
proof -
  have "char_of (n + 32) = l \<longleftrightarrow> n + 32 = of_char l" if "n \<le> 222" for n :: nat
  proof -
    have "take_bit 8 (n + 32) = n + 32"
      using that by (simp add: take_bit_nat_eq_self)
    then show ?thesis
      by (simp add: char_of_eq_iff)
  qed
  then show ?thesis
    by (auto simp: lower_char_def Let_def)
qed

lemma lower_char_y: "lower_char c = CHR ''y'' \<longleftrightarrow> c \<in> {CHR ''y'', CHR ''Y''}"
proof -
  have "(of_char c :: nat) = 89 \<longleftrightarrow> c = CHR ''Y''"
    using of_char_eq_iff [of c "CHR ''Y''", where ?'a = nat] by simp
  then show ?thesis
    by (auto simp: lower_char_eq_iff)
qed

lemma lower_char_e: "lower_char c = CHR ''e'' \<longleftrightarrow> c \<in> {CHR ''e'', CHR ''E''}"
proof -
  have "(of_char c :: nat) = 69 \<longleftrightarrow> c = CHR ''E''"
    using of_char_eq_iff [of c "CHR ''E''", where ?'a = nat] by simp
  then show ?thesis
    by (auto simp: lower_char_eq_iff)
qed

lemma lower_char_s: "lower_char c = CHR ''s'' \<longleftrightarrow> c \<in> {CHR ''s'', CHR ''S''}"
proof -
  have "(of_char c :: nat) = 83 \<longleftrightarrow> c = CHR ''S''"
    using of_char_eq_iff [of c "CHR ''S''", where ?'a = nat] by simp
  then show ?thesis
    by (auto simp: lower_char_eq_iff)
qed

lemma take3_drop:
  assumes "i + 3 \<le> length xs"
  shows "take 3 (drop i xs) = [xs ! i, xs ! (i + 1), xs ! (i + 2)]"
proof -
  have "drop i xs = xs ! i # drop (Suc i) xs"
    using assms by (simp add: Cons_nth_drop_Suc)
  moreover have "drop (Suc i) xs = xs ! (Suc i) # drop (Suc (Suc i)) xs"
    using assms by (simp add: Cons_nth_drop_Suc)
  moreover have "drop (Suc (Suc i)) xs = xs ! (Suc (Suc i)) # drop (Suc (Suc (Suc i))) xs"
    using assms by (simp add: Cons_nth_drop_Suc)
  ultimately show ?thesis
    by (simp add: numeral_3_eq_3)
qed

lemma py_in_yes:
  "py_in ''yes'' u \<longleftrightarrow> (\<exists>i. i + 3 \<le> length u \<and> take 3 (drop i u) = ''yes'')"
  by (simp add: py_in_iff numeral_3_eq_3)

lemma yes_in_lower: "py_in ''yes'' (py_lower t) \<longleftrightarrow> contains_yes_ignoring_case t"
proof
  assume "py_in ''yes'' (py_lower t)"
  then obtain i where i: "i + 3 \<le> length t"
      and run: "take 3 (drop i (map lower_char t)) = ''yes''"
    unfolding py_in_yes py_lower_def by auto
  from i run have "[lower_char (t ! i), lower_char (t ! (i + 1)), lower_char (t ! (i + 2))] = ''yes''"
    by (simp add: take3_drop)
  then have "t ! i \<in> {CHR ''y'', CHR ''Y''} \<and> t ! (i + 1) \<in> {CHR ''e'', CHR ''E''}
      \<and> t ! (i + 2) \<in> {CHR ''s'', CHR ''S''}"
    using lower_char_y [of "t ! i"] lower_char_e [of "t ! (i + 1)"] lower_char_s [of "t ! (i + 2)"]
    by simp
  moreover from i have "i \<in> {0..<length t} \<and> i + 2 < length t"
    by simp
  ultimately show "contains_yes_ignoring_case t"
    unfolding contains_yes_ignoring_case_def by blast
next
  assume "contains_yes_ignoring_case t"
  then obtain i where i: "i + 2 < length t"
      and letters: "t ! i \<in> {CHR ''y'', CHR ''Y''}" "t ! (i + 1) \<in> {CHR ''e'', CHR ''E''}"
        "t ! (i + 2) \<in> {CHR ''s'', CHR ''S''}"
    unfolding contains_yes_ignoring_case_def by blast
  from letters have "[lower_char (t ! i), lower_char (t ! (i + 1)), lower_char (t ! (i + 2))] = ''yes''"
    using lower_char_y [of "t ! i"] lower_char_e [of "t ! (i + 1)"] lower_char_s [of "t ! (i + 2)"]
    by simp
  moreover from i have len: "i + 3 \<le> length (map lower_char t)"
    by simp
  ultimately have "take 3 (drop i (map lower_char t)) = ''yes''"
    using i by (simp add: take3_drop)
  with len have "i + 3 \<le> length (py_lower t) \<and> take 3 (drop i (py_lower t)) = ''yes''"
    by (simp add: py_lower_def)
  then show "py_in ''yes'' (py_lower t)"
    unfolding py_in_yes by blast
qed

text \<open>
  C7. When the service call succeeds with a content, \<open>get_data_from_ai\<close> returns,
  for the category \<open>boolean\<close>, the boolean that says whether the stripped content
  holds the letters y, e, s in a row, each in either case; for every other category it
  returns the stripped content itself, as a string.
\<close>

theorem synthesize_coercion:
  assumes "fst (client (data_request field_name field_type mdl) s) = Inr resp"
    and "first_content resp = Inr content"
  shows "fst (get_data_from_ai field_name field_type client mdl s) =
           (if field_type = ''boolean''
            then Inr (PyBool (contains_yes_ignoring_case (strip_data content)))
            else Inr (PyStr (strip_data content)))"
  using assms by (simp add: synthesize_result coerce_data_def yes_in_lower)

theorem synthesize_coercion_witness:
  "fst (get_data_from_ai ''is_approved'' ''boolean''
          (answering ('' '' @ dquote @ ''YES, approved'' @ dquote)) ''gpt-3.5-turbo'' ())
     = Inr (PyBool True)
   \<and> contains_yes_ignoring_case (strip_data ('' '' @ dquote @ ''YES, approved'' @ dquote))
   \<and> fst (get_data_from_ai ''amount'' ''currency_amount'' (answering '' 12345.00 '')
            ''gpt-3.5-turbo'' ())
     = Inr (PyStr ''12345.00'')"
proof -
  let ?yes = "'' '' @ dquote @ ''YES, approved'' @ dquote"
  have call: "fst (answering c (data_request f t ''gpt-3.5-turbo'') ()) = Inr \<lparr> choices = [Some c] \<rparr>"
    for c f t
    by (simp add: answering_def)
  have content: "first_content \<lparr> choices = [Some c] \<rparr> = Inr c" for c
    by (simp add: first_content_def)
  have yes: "fst (get_data_from_ai ''is_approved'' ''boolean'' (answering ?yes) ''gpt-3.5-turbo'' ())
     = Inr (PyBool True)"
    by code_simp
  have amount: "strip_data '' 12345.00 '' = ''12345.00''"
    by code_simp
  show ?thesis
    using yes amount
      synthesize_coercion [of "answering ?yes" "''is_approved''" "''boolean''" "''gpt-3.5-turbo''"
        "()" "\<lparr> choices = [Some ?yes] \<rparr>" ?yes, OF call content]
      synthesize_coercion [of "answering '' 12345.00 ''" "''amount''" "''currency_amount''"
        "''gpt-3.5-turbo''" "()" "\<lparr> choices = [Some '' 12345.00 ''] \<rparr>" "'' 12345.00 ''",
        OF call content]
    by simp
qed

lemma strip_where_middle:
  "\<exists>pre post. t = pre @ strip_where p t @ post
     \<and> (\<forall>c \<in> set pre. p c) \<and> (\<forall>c \<in> set post. p c)"
proof -
  let ?d = "dropWhile p t"
  have "?d = rev (rev ?d)"
    by simp
  also have "\<dots> = rev (takeWhile p (rev ?d) @ dropWhile p (rev ?d))"
    by (simp only: takeWhile_dropWhile_id)
  also have "\<dots> = rev (dropWhile p (rev ?d)) @ rev (takeWhile p (rev ?d))"
    by (simp only: rev_append)
  finally have "?d = strip_where p t @ rev (takeWhile p (rev ?d))"
    by (simp only: strip_where_def)
  then have "t = takeWhile p t @ strip_where p t @ rev (takeWhile p (rev ?d))"
    using takeWhile_dropWhile_id [of p t] by simp
  moreover have "\<forall>c \<in> set (takeWhile p t). p c"
    by (auto dest: set_takeWhileD)
  moreover have "\<forall>c \<in> set (rev (takeWhile p (rev ?d))). p c"
    by (auto dest: set_takeWhileD)
  ultimately show ?thesis
    by blast
qed

lemma last_dropWhile_eq: "dropWhile p xs \<noteq> [] \<Longrightarrow> last (dropWhile p xs) = last xs"
  using takeWhile_dropWhile_id [of p xs] last_appendR [of "dropWhile p xs" "takeWhile p xs"]
  by simp

lemma strip_where_ends:
  assumes "strip_where p t \<noteq> []"
  shows "\<not> p (hd (strip_where p t)) \<and> \<not> p (last (strip_where p t))"
proof -
  let ?d = "dropWhile p t"
  let ?e = "dropWhile p (rev ?d)"
  from assms have e: "?e \<noteq> []"
    by (simp add: strip_where_def)
  have d: "?d \<noteq> []"
  proof
    assume empty: "?d = []"
    have "?e = []"
      unfolding empty by simp
    with e show False
      by simp
  qed
  have "last (strip_where p t) = hd ?e"
    using e by (simp add: strip_where_def last_rev)
  moreover have "\<not> p (hd ?e)"
    using e by (rule hd_dropWhile)
  moreover have "hd (strip_where p t) = last ?e"
    using e by (simp add: strip_where_def hd_rev)
  moreover have "last ?e = last (rev ?d)"
    using e by (rule last_dropWhile_eq)
  moreover have "last (rev ?d) = hd ?d"
    using d by (simp add: last_rev)
  moreover have "\<not> p (hd ?d)"
    using d by (rule hd_dropWhile)
  ultimately show ?thesis
    by simp
qed

text \<open>
  C8, as the code has it. The value \<open>get_data_from_ai\<close> returns on success is
  computed from the stripped content alone, and the stripped content is the content
  without a leading and a trailing run of spaces and double quotes: what is cut off
  on either side consists of these two characters only, and what is left neither
  starts nor ends with one of them.
\<close>

theorem synthesize_strips_spaces_and_double_quotes:
  "(\<forall>resp. fst (client (data_request field_name field_type mdl) s) = Inr resp
        \<and> first_content resp = Inr content
        \<longrightarrow> fst (get_data_from_ai field_name field_type client mdl s)
              = Inr (coerce_data field_type (strip_data content)))
   \<and> (\<exists>pre post. content = pre @ strip_data content @ post
          \<and> set pre \<subseteq> {CHR '' '', CHR 0x22} \<and> set post \<subseteq> {CHR '' '', CHR 0x22})
   \<and> (strip_data content \<noteq> []
        \<longrightarrow> hd (strip_data content) \<notin> {CHR '' '', CHR 0x22}
            \<and> last (strip_data content) \<notin> {CHR '' '', CHR 0x22})"
proof -
  let ?p = "\<lambda>c. c \<in> set ('' '' @ dquote)"
  have sd: "strip_data content = strip_where ?p content"
    by (simp add: strip_data_def py_strip_chars_def)
  have p: "?p c \<longleftrightarrow> c \<in> {CHR '' '', CHR 0x22}" for c
    by (auto simp: dquote_def)
  obtain pre post where "content = pre @ strip_where ?p content @ post"
      "\<forall>c \<in> set pre. ?p c" "\<forall>c \<in> set post. ?p c"
    using strip_where_middle [of content ?p] by blast
  then have middle: "\<exists>pre post. content = pre @ strip_data content @ post
          \<and> set pre \<subseteq> {CHR '' '', CHR 0x22} \<and> set post \<subseteq> {CHR '' '', CHR 0x22}"
    unfolding sd using p by blast
  have ends: "hd (strip_data content) \<notin> {CHR '' '', CHR 0x22}
            \<and> last (strip_data content) \<notin> {CHR '' '', CHR 0x22}"
    if "strip_data content \<noteq> []"
    using that strip_where_ends [of ?p content] unfolding sd p by simp
  show ?thesis
    using middle ends by (simp add: synthesize_result)
qed

theorem synthesize_strips_spaces_and_double_quotes_witness:
  "fst (get_data_from_ai ''full_name'' ''name''
          (answering (''  '' @ dquote @ ''Jane Doe'' @ dquote @ '' '')) ''gpt-3.5-turbo'' ())
     = Inr (PyStr ''Jane Doe'')
   \<and> hd ''Jane Doe'' \<notin> {CHR '' '', CHR 0x22}
   \<and> last ''Jane Doe'' \<notin> {CHR '' '', CHR 0x22}"
proof -
  have stripped: "strip_data (''  '' @ dquote @ ''Jane Doe'' @ dquote @ '' '') = ''Jane Doe''"
    by code_simp
  show ?thesis
    using stripped
      synthesize_strips_spaces_and_double_quotes [of "answering (''  '' @ dquote @ ''Jane Doe'' @ dquote @ '' '')"
        "''full_name''" "''name''" "''gpt-3.5-turbo''" "()"
        "''  '' @ dquote @ ''Jane Doe'' @ dquote @ '' ''"]
    by (simp add: answering_def first_content_def coerce_data_def)
qed

text \<open>
  The claim as stated fails: a trailing line feed, which is whitespace, stays in the
  value returned, and so do surrounding single quotes.
\<close>

theorem synthesize_keeps_newline_counterexample:
  "fst (get_data_from_ai ''full_name'' ''name'' (answering (''Jane Doe'' @ nl)) ''gpt-3.5-turbo'' ())
     = Inr (PyStr (''Jane Doe'' @ nl))
   \<and> py_isspace (last (''Jane Doe'' @ nl))
   \<and> fst (get_data_from_ai ''full_name'' ''name'' (answering (squote @ ''Jane Doe'' @ squote))
            ''gpt-3.5-turbo'' ())
     = Inr (PyStr (squote @ ''Jane Doe'' @ squote))"
  by code_simp

section \<open>Properties of the Form Writer\<close>

lemma dict_get_update_one:
  "dict_get (dict_update d [(k, v)]) k' = (if k' = k then Some v else dict_get d k')"
  by (simp add: dict_get_def dict_update_def AList.update_conv')

lemma dict_get_update_two:
  "dict_get (dict_update d [(k1, v1), (k2, v2)]) k' =
     (if k' = k2 then Some v2 else if k' = k1 then Some v1 else dict_get d k')"
  by (simp add: dict_get_def dict_update_def AList.update_conv')

lemma set_field_value_bool:
  "dict_get (set_field_value (PyBool b) annotation) ''/V'' = Some (if b then ''/Yes'' else ''/Off'')
   \<and> dict_get (set_field_value (PyBool b) annotation) ''/AS'' = Some (if b then ''/Yes'' else ''/Off'')"
  by (simp add: set_field_value_def isinstance_bool_def py_truth_def dict_get_update_two PdfName_def)

lemma set_field_value_str:
  "dict_get (set_field_value (PyStr t) annotation) ''/V'' = Some t"
  by (simp add: set_field_value_def isinstance_bool_def py_str_def dict_get_update_one)

lemma fill_template_annots:
  assumes "p < length (pages template_pdf)"
    and "annots (pages template_pdf ! p) = Some annotations"
  shows "annots (pages (fill_template data_to_fill template_pdf) ! p)
           = Some (map (fill_annotation data_to_fill) annotations)"
  using assms by (simp add: fill_template_def fill_page_def)

text \<open>
  C3. Take any annotation of any page of the template that is a widget with a name
  (\<open>/Subtype\<close> is \<open>/Widget\<close>, \<open>/T\<close> is present and not empty) and whose field name, as
  the Form Writer reads it, is a key of the mapping. In the document returned, the
  annotation at the same place has \<open>/V\<close> and \<open>/AS\<close> both set to \<open>/Yes\<close> when the
  mapped value is the boolean true, both set to \<open>/Off\<close> when it is the boolean false,
  and \<open>/V\<close> set to the string form of the value when it is not a boolean.
\<close>

theorem form_writer_sets_matching_widgets:
  assumes "p < length (pages template_pdf)"
    and "annots (pages template_pdf ! p) = Some annotations"
    and "i < length annotations"
    and "is_named_widget (annotations ! i)"
    and "data_to_fill (widget_field_name (annotations ! i)) = Some field_value"
  shows "\<exists>filled.
           annots (pages (fill_template data_to_fill template_pdf) ! p) = Some filled
           \<and> length filled = length annotations
           \<and> (\<forall>b. field_value = PyBool b
                 \<longrightarrow> dict_get (filled ! i) ''/V'' = Some (if b then ''/Yes'' else ''/Off'')
                     \<and> dict_get (filled ! i) ''/AS'' = Some (if b then ''/Yes'' else ''/Off''))
           \<and> (\<not> isinstance_bool field_value
                 \<longrightarrow> dict_get (filled ! i) ''/V'' = Some (py_str field_value))"
proof -
  have "fill_annotation data_to_fill (annotations ! i)
          = set_field_value field_value (annotations ! i)"
    using assms(4,5) by (simp add: fill_annotation_def)
  moreover have "\<not> isinstance_bool field_value
      \<Longrightarrow> dict_get (set_field_value field_value (annotations ! i)) ''/V''
            = Some (py_str field_value)"
    by (cases field_value) (simp_all add: isinstance_bool_def set_field_value_str py_str_def)
  ultimately show ?thesis
    using assms(3) fill_template_annots [OF assms(1,2), of data_to_fill]
    by (auto simp: set_field_value_bool)
qed

text \<open>
  C4. Take any annotation of any page of the template that is not a named widget, or
  is one whose field name, as the Form Writer reads it, is not a key of the mapping.
  The document returned has as many pages, the page has as many annotations, and the
  annotation at the same place is the template's, entry for entry.
\<close>

theorem form_writer_leaves_unmatched_widgets:
  assumes "p < length (pages template_pdf)"
    and "annots (pages template_pdf ! p) = Some annotations"
    and "i < length annotations"
    and "is_named_widget (annotations ! i)
           \<longrightarrow> data_to_fill (widget_field_name (annotations ! i)) = None"
  shows "length (pages (fill_template data_to_fill template_pdf)) = length (pages template_pdf)
         \<and> (\<exists>filled.
               annots (pages (fill_template data_to_fill template_pdf) ! p) = Some filled
               \<and> length filled = length annotations
               \<and> filled ! i = annotations ! i)"
proof -
  have "fill_annotation data_to_fill (annotations ! i) = annotations ! i"
    using assms(4) by (simp add: fill_annotation_def)
  then show ?thesis
    using assms(3) fill_template_annots [OF assms(1,2), of data_to_fill]
    by (simp add: fill_template_def)
qed

text \<open>
  C10. For a widget whose \<open>/T\<close> entry is the text \<open>t\<close>, the key looked up in the
  mapping is \<open>t\<close> without its first and its last character: when that key is
  present the value is written (\<open>/V\<close> holds its token afterwards), when it is absent
  the annotation is returned as it was, whether or not \<open>t\<close> itself is a key.
\<close>

theorem form_writer_matches_stripped_name:
  assumes "dict_get annotation ''/Subtype'' = Some ''/Widget''"
    and "dict_get annotation ''/T'' = Some t"
    and "t \<noteq> []"
  shows "(\<forall>v. data_to_fill (butlast (tl t)) = Some v
            \<longrightarrow> fill_annotation data_to_fill annotation = set_field_value v annotation
                \<and> dict_get (fill_annotation data_to_fill annotation) ''/V''
                    = Some (case v of PyBool b \<Rightarrow> if b then ''/Yes'' else ''/Off'' | PyStr x \<Rightarrow> x))
         \<and> (data_to_fill (butlast (tl t)) = None
            \<longrightarrow> fill_annotation data_to_fill annotation = annotation)
         \<and> (\<forall>first name lastc. t = first # name @ [lastc] \<longrightarrow> butlast (tl t) = name)"
proof -
  have widget: "is_named_widget annotation"
    using assms by (simp add: is_named_widget_def)
  have name: "widget_field_name annotation = butlast (tl t)"
    using assms(2) by (simp add: widget_field_name_def py_slice_1_m1_def)
  have stored: "dict_get (set_field_value v annotation) ''/V''
      = Some (case v of PyBool b \<Rightarrow> if b then ''/Yes'' else ''/Off'' | PyStr x \<Rightarrow> x)" for v
    by (cases v) (simp_all add: set_field_value_bool set_field_value_str)
  show ?thesis
    using widget name stored by (auto simp: fill_annotation_def butlast_append)
qed

theorem form_writer_sets_matching_widgets_witness:
  "\<exists>filled.
     annots (pages (fill_template sample_values agreement_form) ! 0) = Some filled
     \<and> dict_get (filled ! 0) ''/V'' = Some ''/Yes''
     \<and> dict_get (filled ! 0) ''/AS'' = Some ''/Yes''
     \<and> dict_get (filled ! 1) ''/V'' = Some ''Jane Doe''"
proof -
  let ?annotations = "[agree_widget, full_name_widget, date_signed_widget, link_annotation]"
  have page: "0 < length (pages agreement_form)"
      "annots (pages agreement_form ! 0) = Some ?annotations"
    by (simp_all add: agreement_form_def)
  have agree: "0 < length ?annotations" "is_named_widget (?annotations ! 0)"
      "sample_values (widget_field_name (?annotations ! 0)) = Some (PyBool True)"
    by (simp_all add: is_named_widget_def widget_field_name_def dict_get_def agree_widget_def
          py_slice_1_m1_def sample_values_def)
  have full_name: "1 < length ?annotations" "is_named_widget (?annotations ! 1)"
      "sample_values (widget_field_name (?annotations ! 1)) = Some (PyStr ''Jane Doe'')"
    by (simp_all add: is_named_widget_def widget_field_name_def dict_get_def
          full_name_widget_def py_slice_1_m1_def sample_values_def)
  show ?thesis
    using form_writer_sets_matching_widgets [of 0 agreement_form ?annotations 0 sample_values
          "PyBool True", OF page agree]
      form_writer_sets_matching_widgets [of 0 agreement_form ?annotations 1 sample_values
          "PyStr ''Jane Doe''", OF page full_name]
    by (auto simp: isinstance_bool_def py_str_def)
qed

theorem form_writer_leaves_unmatched_widgets_witness:
  "\<exists>filled.
     annots (pages (fill_template sample_values agreement_form) ! 0) = Some filled
     \<and> filled ! 2 = date_signed_widget
     \<and> filled ! 3 = link_annotation"
proof -
  let ?annotations = "[agree_widget, full_name_widget, date_signed_widget, link_annotation]"
  have page: "0 < length (pages agreement_form)"
      "annots (pages agreement_form ! 0) = Some ?annotations"
    by (simp_all add: agreement_form_def)
  have date_signed: "2 < length ?annotations"
      "is_named_widget (?annotations ! 2)
         \<longrightarrow> sample_values (widget_field_name (?annotations ! 2)) = None"
    by (simp_all add: widget_field_name_def dict_get_def date_signed_widget_def
          py_slice_1_m1_def sample_values_def)
  have link: "3 < length ?annotations"
      "is_named_widget (?annotations ! 3)
         \<longrightarrow> sample_values (widget_field_name (?annotations ! 3)) = None"
    by (simp_all add: is_named_widget_def dict_get_def link_annotation_def)
  show ?thesis
    using form_writer_leaves_unmatched_widgets [of 0 agreement_form ?annotations 2 sample_values,
          OF page date_signed]
      form_writer_leaves_unmatched_widgets [of 0 agreement_form ?annotations 3 sample_values,
          OF page link]
    by auto
qed

theorem form_writer_matches_stripped_name_witness:
  "fill_annotation [''(agree)'' \<mapsto> PyBool True] agree_widget = agree_widget
   \<and> dict_get (fill_annotation [''agree'' \<mapsto> PyBool True] agree_widget) ''/V'' = Some ''/Yes''
   \<and> butlast (tl ''(agree)'') = ''agree''"
proof -
  have widget: "dict_get agree_widget ''/Subtype'' = Some ''/Widget''"
      "dict_get agree_widget ''/T'' = Some ''(agree)''" "''(agree)'' \<noteq> []"
    by (simp_all add: dict_get_def agree_widget_def)
  show ?thesis
    using form_writer_matches_stripped_name [OF widget, of "[''(agree)'' \<mapsto> PyBool True]"]
      form_writer_matches_stripped_name [OF widget, of "[''agree'' \<mapsto> PyBool True]"]
    by auto
qed

text \<open>
  After the pages, a form dictionary that is present and not empty gets the entry
  \<open>/NeedAppearances true\<close>; its other entries stay.
\<close>

lemma need_appearances_marked:
  "(\<forall>d. acroform template_pdf = Some d \<and> d \<noteq> []
        \<longrightarrow> (\<exists>d'. acroform (fill_template data_to_fill template_pdf) = Some d'
                  \<and> dict_get d' ''/NeedAppearances'' = Some ''true''
                  \<and> (\<forall>k. k \<noteq> ''/NeedAppearances'' \<longrightarrow> dict_get d' k = dict_get d k)))
   \<and> (acroform template_pdf = None \<longrightarrow> acroform (fill_template data_to_fill template_pdf) = None)
   \<and> (acroform template_pdf = Some []
        \<longrightarrow> acroform (fill_template data_to_fill template_pdf) = Some [])"
  by (simp add: fill_template_def mark_need_appearances_def dict_get_update_one PdfObject_def)

lemma need_appearances_sample:
  "acroform (fill_template sample_values agreement_form)
     = Some [(''/DA'', ''(/Helv 0 Tf 0 g)''), (''/NeedAppearances'', ''true'')]"
  using need_appearances_marked [of agreement_form sample_values]
  by (simp add: agreement_form_def fill_template_def mark_need_appearances_def dict_update_def
        PdfObject_def)

section \<open>Properties of the program\<close>

lemma synthesize_returns:
  "\<exists>v s'. get_data_from_ai field_name field_type client mdl s = (Inr v, s')"
  by (auto simp: get_data_from_ai_def split: prod.splits sum.splits)

lemma collect_data_returns:
  "\<exists>d s'. collect_data field_names client mdl data_to_fill s = (Inr d, s')"
proof (induction field_names arbitrary: data_to_fill s)
  case Nil
  show ?case by simp
next
  case (Cons field_name rest)
  obtain field_type s1 where c: "get_field_type_from_ai field_name client mdl s = (Inr field_type, s1)"
    using classify_cases [of field_name client mdl s] by blast
  obtain v s2 where d: "get_data_from_ai field_name field_type client mdl s1 = (Inr v, s2)"
    using synthesize_returns [of field_name field_type client mdl s1] by blast
  have "collect_data (field_name # rest) client mdl data_to_fill s
          = collect_data rest client mdl (data_to_fill(field_name \<mapsto> v)) s2"
    using c d by simp
  then show ?case
    using Cons.IH [of "data_to_fill(field_name \<mapsto> v)" s2] by (simp only:)
qed

text \<open>
  With a library whose reads and writes succeed, every index of the loop writes its
  file \<open>{prefix}-{index}.pdf\<close>: the two calls per field never raise.
\<close>

lemma one_file_per_copy:
  assumes reads: "\<forall>path w. \<exists>doc. pdf_reader lib path w = Inr doc"
    and writes: "\<forall>path doc w. \<exists>w'. pdf_write lib path doc w = Inr w'"
  shows "\<exists>w' s'. generate_documents lib a field_names client mdl indices written w s
           = (Returned,
              written @ map (\<lambda>i. output_prefix a @ ''-'' @ str_int i @ ''.pdf'') indices,
              w', s')"
proof (induction indices arbitrary: written w s)
  case Nil
  show ?case by simp
next
  case (Cons i rest)
  obtain d s1 where c: "collect_data field_names client mdl Map.empty s = (Inr d, s1)"
    using collect_data_returns [of field_names client mdl Map.empty s] by blast
  obtain doc where r: "pdf_reader lib (input_file a) w = Inr doc"
    using reads by blast
  obtain w1 where wr: "pdf_write lib (output_prefix a @ ''-'' @ str_int i @ ''.pdf'')
      (fill_template d doc) w = Inr w1"
    using writes by blast
  show ?case
    using c r wr Cons.IH [of "written @ [output_prefix a @ ''-'' @ str_int i @ ''.pdf'']" w1 s1]
    by (simp add: fill_pdf_form_def)
qed

lemma client_setup_completes:
  assumes "load_config lib (config a) w = Inr (YDict cfg)"
    and "map_of cfg (YStr ''openai'') = Some (YDict openai_config)"
    and "map_of openai_config (YStr ''api_key'') = Some api_key"
    and "yaml_truth api_key"
    and "yaml_get (YDict openai_config) ''endpoint_url'' YNone = Inr endpoint_url"
    and "OpenAI api_key (if yaml_truth endpoint_url then endpoint_url else YNone) = Inr client"
  shows "\<exists>model_to_use. client_setup lib OpenAI a w = Inr (client, model_to_use)"
  using assms by (simp add: client_setup_def yaml_get_def split: option.splits)

lemma main_raises_what_setup_raises:
  assumes "client_setup lib OpenAI a w = Inl e"
  shows "main lib OpenAI a w s =
           (case e of
              FileNotFoundError m \<Rightarrow> (Returned, [], w, s)
            | ValueError m \<Rightarrow> (Returned, [], w, s)
            | _ \<Rightarrow> (Raised e, [], w, s))"
  using assms by (simp add: main_def split: error.splits)

text \<open>
  The constructor's failure leaves \<open>main\<close> as an exception before the fields are
  enumerated, and so does a configuration file that is empty:
  \<open>except (FileNotFoundError, ValueError)\<close> catches neither.
\<close>

lemma main_bad_endpoint:
  "main (sample_library bad_endpoint_config None agreement_form) (sample_OpenAI ''text'')
     sample_args [] () = (Raised (OtherError ''InvalidURL''), [], [], ())"
  by (simp add: main_def client_setup_def load_config_def sample_library_def yaml_get_def
        bad_endpoint_config_def yaml_truth_def sample_OpenAI_def)

lemma main_empty_config:
  "main (sample_library YNone None agreement_form) (sample_OpenAI ''text'')
     sample_args [] () = (Raised AttributeError, [], [], ())"
  by (simp add: main_def client_setup_def load_config_def sample_library_def yaml_get_def)

text \<open>
  C9. When the field enumeration gives \<open>None\<close> or no field names, \<open>main\<close> returns
  normally, having written no output file, with the disk as it was and the service
  not called. The enumeration is reached when the \<open>try\<close> block has completed (the
  configuration loaded, it holds an API key, the client's constructor returned) and
  the input file exists. Whether or not it is reached, no output file is written.
\<close>

theorem main_without_fields:
  assumes "get_fields lib (input_file a) w = Inr field_names"
    and "field_names = None \<or> field_names = Some []"
  shows "(\<forall>client model_to_use.
            client_setup lib OpenAI a w = Inr (client, model_to_use)
            \<and> path_exists lib (input_file a) w
            \<longrightarrow> main lib OpenAI a w s = (Returned, [], w, s))
         \<and> (\<exists>how. main lib OpenAI a w s = (how, [], w, s))"
proof (intro conjI allI impI)
  fix client model_to_use
  assume "client_setup lib OpenAI a w = Inr (client, model_to_use)
      \<and> path_exists lib (input_file a) w"
  then show "main lib OpenAI a w s = (Returned, [], w, s)"
    using assms by (auto simp: main_def)
next
  show "\<exists>how. main lib OpenAI a w s = (how, [], w, s)"
  proof (cases "client_setup lib OpenAI a w")
    case (Inl e)
    then show ?thesis
      by (cases e) (simp_all add: main_raises_what_setup_raises)
  next
    case (Inr ready)
    then show ?thesis
      using assms by (cases ready) (auto simp: main_def)
  qed
qed

theorem main_without_fields_witness:
  "main (sample_library sample_config None agreement_form) (sample_OpenAI ''text'')
     sample_args [] () = (Returned, [], [], ())
   \<and> main (sample_library sample_config (Some []) agreement_form) (sample_OpenAI ''text'')
     sample_args [] () = (Returned, [], [], ())"
proof -
  let ?lib = "\<lambda>f. sample_library sample_config f agreement_form"
  let ?OpenAI = "sample_OpenAI ''text'' :: yaml \<Rightarrow> yaml \<Rightarrow> error + (yaml, unit) client"
  have loaded: "load_config (?lib f) (config sample_args) []
        = Inr (YDict [(YStr ''openai'', YDict [(YStr ''api_key'', YStr ''sk-sample'')])])"
      "map_of [(YStr ''openai'', YDict [(YStr ''api_key'', YStr ''sk-sample'')])] (YStr ''openai'')
        = Some (YDict [(YStr ''api_key'', YStr ''sk-sample'')])"
      "map_of [(YStr ''api_key'', YStr ''sk-sample'')] (YStr ''api_key'') = Some (YStr ''sk-sample'')"
      "yaml_truth (YStr ''sk-sample'')"
      "yaml_get (YDict [(YStr ''api_key'', YStr ''sk-sample'')]) ''endpoint_url'' YNone = Inr YNone"
      "?OpenAI (YStr ''sk-sample'') (if yaml_truth YNone then YNone else YNone)
        = Inr (answering ''text'')"
    for f
    by (simp_all add: load_config_def sample_library_def sample_config_def yaml_truth_def
          yaml_get_def sample_OpenAI_def)
  have reached: "\<exists>model_to_use.
      client_setup (?lib f) ?OpenAI sample_args [] = Inr (answering ''text'', model_to_use)" for f
    by (rule client_setup_completes [where OpenAI = ?OpenAI, OF loaded])
  have enumerated: "path_exists (?lib f) (input_file sample_args) []"
      "get_fields (?lib f) (input_file sample_args) [] = Inr f" for f
    by (simp_all add: sample_library_def)
  have none: "(None :: string list option) = None \<or> None = Some []"
    by simp
  have empty: "Some ([] :: string list) = None \<or> Some [] = Some ([] :: string list)"
    by simp
  show ?thesis
    using reached [of None] reached [of "Some []"] enumerated(1)
      main_without_fields [where lib = "?lib None" and OpenAI = ?OpenAI and a = sample_args
          and w = "[]" and s = "()", OF enumerated(2) none]
      main_without_fields [where lib = "?lib (Some [])" and OpenAI = ?OpenAI and a = sample_args
          and w = "[]" and s = "()", OF enumerated(2) empty]
    by blast
qed

end
